theory Spec2Isabelle
  imports Main "HOL-Library.Sublist"
begin

section \<open>Skill-gap detection (resume_logic.py, detect_skill_gaps)\<close>

text \<open>
  \<^verbatim>\<open>
  def detect_skill_gaps(jd_skills, resume_skills):
      matched = [s for s in jd_skills if s in resume_skills]
      gaps = [s for s in jd_skills if s not in resume_skills]
      return matched, gaps
  \<close>
  The only operation on \<open>resume_skills\<close> is the membership test, so the container is
  modelled as a set; \<open>jd_skills\<close> is iterated in order and is a list.
\<close>

definition detect_skill_gaps :: "'a list \<Rightarrow> 'a set \<Rightarrow> 'a list \<times> 'a list" where
  "detect_skill_gaps jd_skills resume_skills =
     (let matched = [s \<leftarrow> jd_skills. s \<in> resume_skills];
          gaps = [s \<leftarrow> jd_skills. s \<notin> resume_skills]
      in (matched, gaps))"

text \<open>
  Putting the two result lists back together by original position: the flag list says,
  for every position of the job-token list, whether the token went to matched.
\<close>

fun interleave :: "bool list \<Rightarrow> 'a list \<Rightarrow> 'a list \<Rightarrow> 'a list" where
  "interleave [] ms gs = []"
| "interleave (True # bs) (m # ms) gs = m # interleave bs ms gs"
| "interleave (False # bs) ms (g # gs) = g # interleave bs ms gs"
| "interleave (True # bs) [] gs = []"
| "interleave (False # bs) ms [] = []"

section \<open>Text, characters and the Unicode tables\<close>

text \<open>
  A Python \<open>str\<close> is a sequence of Unicode code points; a code point is modelled as a
  natural number and a string as the list of its code points. \<open>str\<close> turns an ASCII
  literal into such a list.
\<close>

type_synonym pystr = "nat list"

definition str :: "string \<Rightarrow> pystr" where
  "str s = map of_char s"

text \<open>
  The classes \<^verbatim>\<open>\w\<close>, \<^verbatim>\<open>\s\<close> and \<^verbatim>\<open>\d\<close> of a \<open>str\<close> pattern and the method
  \<^verbatim>\<open>str.lower\<close> follow the Unicode character database of the interpreter. For the code
  points below U+0100 (Basic Latin and Latin-1 Supplement) the tables are written out
  here. The rest of the database is not part of the program and is taken as a parameter:
  \<open>u_isalnum\<close>, \<open>u_isspace\<close> and \<open>u_isdecimal\<close> are the character predicates and
  \<open>u_lower\<close> is \<^verbatim>\<open>str.lower\<close> (on whole strings, since the lower-casing of U+03A3
  depends on its neighbours).
\<close>

record ucd =
  u_isalnum :: "nat \<Rightarrow> bool"
  u_isspace :: "nat \<Rightarrow> bool"
  u_isdecimal :: "nat \<Rightarrow> bool"
  u_lower :: "pystr \<Rightarrow> pystr"

definition latin1_isalnum :: "nat \<Rightarrow> bool" where
  "latin1_isalnum c =
     ((48 \<le> c \<and> c \<le> 57) \<or> (65 \<le> c \<and> c \<le> 90) \<or> (97 \<le> c \<and> c \<le> 122) \<or>
      c = 170 \<or> c = 178 \<or> c = 179 \<or> c = 181 \<or> c = 185 \<or> c = 186 \<or>
      c = 188 \<or> c = 189 \<or> c = 190 \<or>
      (192 \<le> c \<and> c \<le> 214) \<or> (216 \<le> c \<and> c \<le> 246) \<or> (248 \<le> c \<and> c \<le> 255))"

definition latin1_isspace :: "nat \<Rightarrow> bool" where
  "latin1_isspace c = ((9 \<le> c \<and> c \<le> 13) \<or> (28 \<le> c \<and> c \<le> 32) \<or> c = 133 \<or> c = 160)"

definition latin1_isdecimal :: "nat \<Rightarrow> bool" where
  "latin1_isdecimal c = (48 \<le> c \<and> c \<le> 57)"

definition latin1_lower :: "nat \<Rightarrow> nat" where
  "latin1_lower c =
     (if (65 \<le> c \<and> c \<le> 90) \<or> (192 \<le> c \<and> c \<le> 214) \<or> (216 \<le> c \<and> c \<le> 222)
      then c + 32 else c)"

definition py_isalnum :: "ucd \<Rightarrow> nat \<Rightarrow> bool" where
  "py_isalnum U c = (if c < 256 then latin1_isalnum c else u_isalnum U c)"

definition py_isspace :: "ucd \<Rightarrow> nat \<Rightarrow> bool" where
  "py_isspace U c = (if c < 256 then latin1_isspace c else u_isspace U c)"

definition py_isdecimal :: "ucd \<Rightarrow> nat \<Rightarrow> bool" where
  "py_isdecimal U c = (if c < 256 then latin1_isdecimal c else u_isdecimal U c)"

text \<open>\<^verbatim>\<open>\w\<close>: alphanumeric or the underscore.\<close>

definition is_word :: "ucd \<Rightarrow> nat \<Rightarrow> bool" where
  "is_word U c = (py_isalnum U c \<or> c = 95)"

definition py_lower :: "ucd \<Rightarrow> pystr \<Rightarrow> pystr" where
  "py_lower U t = (if list_all (\<lambda>c. c < 256) t then map latin1_lower t else u_lower U t)"

text \<open>\<^verbatim>\<open>str.strip()\<close> removes leading and trailing whitespace.\<close>

definition py_strip :: "ucd \<Rightarrow> pystr \<Rightarrow> pystr" where
  "py_strip U t = rev (dropWhile (py_isspace U) (rev (dropWhile (py_isspace U) t)))"

section \<open>Regular expressions as the \<open>re\<close> module runs them\<close>

text \<open>
  The patterns of the program are sequences of two kinds of items: a character class
  repeated greedily between a lower and an optional upper bound (a single class is the
  repetition from 1 to 1, \<^verbatim>\<open>\+?\<close> the one from 0 to 1), and the word boundary \<^verbatim>\<open>\b\<close>.
\<close>

datatype atom = Rep "nat \<Rightarrow> bool" nat "nat option" | WordB

text \<open>
  \<^verbatim>\<open>\b\<close> holds at index \<open>i\<close> when exactly one of the characters before and after
  \<open>i\<close> is a word character; outside the string there is no word character.
\<close>

definition at_boundary :: "(nat \<Rightarrow> bool) \<Rightarrow> pystr \<Rightarrow> nat \<Rightarrow> bool" where
  "at_boundary w t i =
     ((0 < i \<and> i \<le> length t \<and> w (t ! (i - 1))) \<noteq> (i < length t \<and> w (t ! i)))"

text \<open>
  The matcher backtracks: \<open>ends w p t i\<close> lists the indices at which a match of \<open>p\<close>
  starting at \<open>i\<close> can end, in the order in which the engine tries them. A greedy
  repetition takes as many characters as it can and gives them back one at a time.
  The match the engine reports is the first of the list.
\<close>

fun ends :: "(nat \<Rightarrow> bool) \<Rightarrow> atom list \<Rightarrow> pystr \<Rightarrow> nat \<Rightarrow> nat list" where
  "ends w [] t i = [i]"
| "ends w (WordB # p) t i = (if at_boundary w t i then ends w p t i else [])"
| "ends w (Rep c lo hi # p) t i =
     (let n = length (takeWhile c (drop i t));
          m = (case hi of None \<Rightarrow> n | Some h \<Rightarrow> min h n)
      in concat (map (\<lambda>k. ends w p t (i + k)) (rev [lo..<Suc m])))"

text \<open>The alternatives of a repetition, one after the other: the body of the concat above.\<close>

definition tries :: "(nat \<Rightarrow> bool) \<Rightarrow> atom list \<Rightarrow> pystr \<Rightarrow> nat \<Rightarrow> nat list \<Rightarrow> nat list" where
  "tries w p t i ks = concat (map (\<lambda>k. ends w p t (i + k)) ks)"

text \<open>
  \<^verbatim>\<open>re.findall\<close> scans from left to right: at each index it takes the match starting
  there if there is one and goes on at its end, otherwise it moves one character on.
  Text before the current index stays visible to \<^verbatim>\<open>\b\<close>. (Every pattern of the program
  consumes at least two characters; after an empty match the scan moves one character
  on.)
\<close>

function findall_from :: "(nat \<Rightarrow> bool) \<Rightarrow> atom list \<Rightarrow> pystr \<Rightarrow> nat \<Rightarrow> pystr list" where
  "findall_from w p t i =
     (if length t < i then []
      else (case ends w p t i of
              [] \<Rightarrow> findall_from w p t (Suc i)
            | e # _ \<Rightarrow> take (e - i) (drop i t) # findall_from w p t (if i < e then e else Suc i)))"
  by pat_completeness auto
termination
  by (relation "measure (\<lambda>(w, p, t, i). Suc (length t) - i)") auto

declare findall_from.simps [simp del]

definition findall :: "ucd \<Rightarrow> atom list \<Rightarrow> pystr \<Rightarrow> pystr list" where
  "findall U p t = findall_from (is_word U) p t 0"

section \<open>Field extraction (resume_logic.py)\<close>

definition upper_AZ :: "nat \<Rightarrow> bool" where
  "upper_AZ c = (65 \<le> c \<and> c \<le> 90)"

definition lower_az :: "nat \<Rightarrow> bool" where
  "lower_az c = (97 \<le> c \<and> c \<le> 122)"

text \<open>\<^verbatim>\<open>[A-Z][a-z]+\s[A-Z][a-z]+\<close>\<close>

definition name_pattern :: "ucd \<Rightarrow> atom list" where
  "name_pattern U =
     [Rep upper_AZ 1 (Some 1), Rep lower_az 1 None, Rep (py_isspace U) 1 (Some 1),
      Rep upper_AZ 1 (Some 1), Rep lower_az 1 None]"

text \<open>\<^verbatim>\<open>[\w\.-]+@[\w\.-]+\.\w+\<close>\<close>

definition email_pattern :: "ucd \<Rightarrow> atom list" where
  "email_pattern U =
     [Rep (\<lambda>c. is_word U c \<or> c = 46 \<or> c = 45) 1 None, Rep (\<lambda>c. c = 64) 1 (Some 1),
      Rep (\<lambda>c. is_word U c \<or> c = 46 \<or> c = 45) 1 None, Rep (\<lambda>c. c = 46) 1 (Some 1),
      Rep (is_word U) 1 None]"

text \<open>\<^verbatim>\<open>\+?\d[\d\s\-\(\)]{8,}\d\<close>\<close>

definition phone_pattern :: "ucd \<Rightarrow> atom list" where
  "phone_pattern U =
     [Rep (\<lambda>c. c = 43) 0 (Some 1), Rep (py_isdecimal U) 1 (Some 1),
      Rep (\<lambda>c. py_isdecimal U c \<or> py_isspace U c \<or> c = 45 \<or> c = 40 \<or> c = 41) 8 None,
      Rep (py_isdecimal U) 1 (Some 1)]"

text \<open>\<^verbatim>\<open>\b[A-Za-z\#\+]{2,15}\b\<close>\<close>

definition skill_char :: "nat \<Rightarrow> bool" where
  "skill_char c = (upper_AZ c \<or> lower_az c \<or> c = 35 \<or> c = 43)"

definition skill_pattern :: "atom list" where
  "skill_pattern = [WordB, Rep skill_char 2 (Some 15), WordB]"

text \<open>
  \<^verbatim>\<open>
  def extract_candidate_details(text):
      name = re.findall(r'[A-Z][a-z]+\s[A-Z][a-z]+', text)
      email = re.findall(r'[\w\.-]+@[\w\.-]+\.\w+', text)
      phone = re.findall(r'\+?\d[\d\s\-\(\)]{8,}\d', text)
      skills = re.findall(r'\b[A-Za-z\#\+]{2,15}\b', text.lower())
      return {
          "Name": name[0] if name else "Unknown",
          "Email": email[0] if email else "Not Found",
          "Phone": phone[0] if phone else "Not Found",
          "Skills": list(set(skills))
      }
  \<close>
  Subscripting an empty list raises \<open>IndexError\<close>; the model keeps that branch, so that
  the absence of an exception is a property to prove. \<open>list(set(skills))\<close> has the
  elements of the set in an order the language does not fix: the field is a set.
\<close>

datatype py_error = IndexError

record candidate =
  Name :: pystr
  Email :: pystr
  Phone :: pystr
  Skills :: "pystr set"

definition subscript0 :: "'a list \<Rightarrow> py_error + 'a" where
  "subscript0 xs = (case xs of [] \<Rightarrow> Inl IndexError | x # _ \<Rightarrow> Inr x)"

definition extract_candidate_details :: "ucd \<Rightarrow> pystr \<Rightarrow> py_error + candidate" where
  "extract_candidate_details U txt =
     (let name = findall U (name_pattern U) txt;
          email = findall U (email_pattern U) txt;
          phone = findall U (phone_pattern U) txt;
          skills = findall U skill_pattern (py_lower U txt)
      in case (if name \<noteq> [] then subscript0 name else Inr (str ''Unknown'')) of
           Inl e \<Rightarrow> Inl e
         | Inr n \<Rightarrow>
        (case (if email \<noteq> [] then subscript0 email else Inr (str ''Not Found'')) of
           Inl e \<Rightarrow> Inl e
         | Inr em \<Rightarrow>
        (case (if phone \<noteq> [] then subscript0 phone else Inr (str ''Not Found'')) of
           Inl e \<Rightarrow> Inl e
         | Inr ph \<Rightarrow> Inr \<lparr>Name = n, Email = em, Phone = ph, Skills = set skills\<rparr>)))"

text \<open>
  \<^verbatim>\<open>
  def extract_skills_from_jd(jd_text):
      return [s.lower().strip() for s in re.findall(r'\b[A-Za-z\#\+]{2,15}\b', jd_text)]
  \<close>
\<close>

definition extract_skills_from_jd :: "ucd \<Rightarrow> pystr \<Rightarrow> pystr list" where
  "extract_skills_from_jd U jd_text =
     map (\<lambda>s. py_strip U (py_lower U s)) (findall U skill_pattern jd_text)"

text \<open>The static role descriptions.\<close>

definition ROLE_SKILLS :: "(string \<times> string) list" where
  "ROLE_SKILLS =
     [(''Frontend Developer'', ''HTML CSS JavaScript React UI UX''),
      (''Backend Developer'', ''Python Django Flask SQL APIs''),
      (''Full Stack Developer'', ''HTML CSS JS Node React Python SQL''),
      (''Data Scientist'', ''Python SQL Machine Learning Statistics Pandas Numpy''),
      (''DevOps Engineer'', ''AWS Docker Kubernetes Linux CI/CD''),
      (''Cloud Engineer'', ''AWS Azure GCP Terraform DevOps'')]"

text \<open>\<^verbatim>\<open>ROLE_SKILLS.get(role, "")\<close>, as the upload page reads the description.\<close>

definition role_description :: "string \<Rightarrow> pystr" where
  "role_description role = (case map_of ROLE_SKILLS role of None \<Rightarrow> [] | Some d \<Rightarrow> str d)"

section \<open>The name, as the spec words it\<close>

text \<open>The length of the longest run of characters of a class that starts at an index.\<close>

definition run :: "(nat \<Rightarrow> bool) \<Rightarrow> pystr \<Rightarrow> nat \<Rightarrow> nat" where
  "run c t i = length (takeWhile c (drop i t))"





section \<open>A sample of the database above U+00FF\<close>

text \<open>
  The entries that the examples need: U+212A KELVIN SIGN is a letter (so it is
  alphanumeric) and \<^verbatim>\<open>str.lower\<close> maps it to U+006B, the letter k. The examples contain
  no other code point above U+00FF.
\<close>

definition kelvin_ucd :: ucd where
  "kelvin_ucd =
     \<lparr>u_isalnum = (\<lambda>c. c = 8490), u_isspace = (\<lambda>c. False), u_isdecimal = (\<lambda>c. False),
      u_lower = map (\<lambda>c. if c = 8490 then 107 else if c < 256 then latin1_lower c else c)\<rparr>"

section \<open>Properties of skill-gap detection\<close>

lemma interleave_filter:
  "interleave (map P xs) (filter P xs) (filter (\<lambda>x. \<not> P x) xs) = xs"
  by (induction xs) auto

text \<open>
  Claim C1. For every list of job tokens and every candidate skill set, the matched and
  gaps lists partition the job tokens at set level: their union is the set of job tokens
  and their intersection is empty.
\<close>

theorem detect_skill_gaps_partition:
  "detect_skill_gaps jd rs = (matched, gaps) \<Longrightarrow>
     set matched \<union> set gaps = set jd \<and> set matched \<inter> set gaps = {}"
  by (auto simp: detect_skill_gaps_def)

theorem detect_skill_gaps_partition_witness:
  "detect_skill_gaps [1, 2, 3, 2 :: nat] {2, 5} = ([2, 2], [1, 3]) \<and>
   set [2, 2 :: nat] \<union> set [1, 3] = set [1, 2, 3, 2] \<and> set [2, 2 :: nat] \<inter> set [1, 3] = {}"
  using detect_skill_gaps_partition [of "[1, 2, 3, 2 :: nat]" "{2, 5}" "[2, 2]" "[1, 3]"]
  by (simp add: detect_skill_gaps_def)

text \<open>
  Claim C4. Matched holds exactly the job tokens present in the candidate set and gaps
  exactly those absent, each with the multiplicity it has in the job-token list, and each
  list is an order-preserving subsequence of the job-token list. For the job tokens
  python, sql, react and the candidate skills python, java the result is ([python],
  [sql, react]).
\<close>

theorem detect_skill_gaps_contract:
  "(case detect_skill_gaps jd rs of (matched, gaps) \<Rightarrow>
      subseq matched jd \<and> subseq gaps jd \<and>
      set matched = set jd \<inter> rs \<and> set gaps = set jd - rs \<and>
      (\<forall>x. count_list matched x = (if x \<in> rs then count_list jd x else 0)) \<and>
      (\<forall>x. count_list gaps x = (if x \<in> rs then 0 else count_list jd x))) \<and>
   detect_skill_gaps [''python'', ''sql'', ''react''] {''python'', ''java''}
     = ([''python''], [''sql'', ''react''])"
proof -
  have cnt: "count_list (filter P xs) x = (if P x then count_list xs x else 0)"
    for P :: "'b \<Rightarrow> bool" and xs x
    by (induction xs) auto
  have "subseq (filter (\<lambda>s. s \<in> rs) jd) jd" "subseq (filter (\<lambda>s. s \<notin> rs) jd) jd"
    by simp_all
  moreover have "set (filter (\<lambda>s. s \<in> rs) jd) = set jd \<inter> rs"
    "set (filter (\<lambda>s. s \<notin> rs) jd) = set jd - rs"
    by auto
  moreover have "detect_skill_gaps [''python'', ''sql'', ''react''] {''python'', ''java''}
     = ([''python''], [''sql'', ''react''])"
    by (simp add: detect_skill_gaps_def)
  ultimately show ?thesis
    by (simp add: detect_skill_gaps_def cnt)
qed

text \<open>
  Claim C9. Every occurrence of a job token goes to exactly one of the two lists: the
  lengths add up to the length of the job-token list, and interleaving matched and gaps
  by original position gives the job-token list back.
\<close>

theorem detect_skill_gaps_positions:
  "detect_skill_gaps jd rs = (matched, gaps) \<Longrightarrow>
     length matched + length gaps = length jd \<and>
     interleave (map (\<lambda>s. s \<in> rs) jd) matched gaps = jd"
  using interleave_filter [of "\<lambda>s. s \<in> rs" jd] sum_length_filter_compl [of "\<lambda>s. s \<in> rs" jd]
  by (auto simp: detect_skill_gaps_def)

theorem detect_skill_gaps_positions_witness:
  "detect_skill_gaps [1, 2, 3, 2 :: nat] {2, 5} = ([2, 2], [1, 3]) \<and>
   length [2, 2 :: nat] + length [1, 3 :: nat] = length [1, 2, 3, 2 :: nat] \<and>
   interleave (map (\<lambda>s. s \<in> {2, 5}) [1, 2, 3, 2 :: nat]) [2, 2] [1, 3] = [1, 2, 3, 2]"
  using detect_skill_gaps_positions [of "[1, 2, 3, 2 :: nat]" "{2, 5}" "[2, 2]" "[1, 3]"]
  by (simp add: detect_skill_gaps_def)

section \<open>The matcher and the scan: general facts\<close>

lemma tries_Nil: "tries w p t i [] = []"
  by (simp add: tries_def)

lemma tries_Cons: "tries w p t i (k # ks) = ends w p t (i + k) @ tries w p t i ks"
  by (simp add: tries_def)

lemma ends_Rep:
  "ends w (Rep c lo hi # p) t i =
     tries w p t i (rev [lo..<Suc (case hi of None \<Rightarrow> length (takeWhile c (drop i t))
                                  | Some h \<Rightarrow> min h (length (takeWhile c (drop i t))))])"
  by (simp add: tries_def Let_def)

lemmas ends_Rep_def = ends.simps(3)

declare ends.simps(3) [simp del]


lemma findall_from_elem:
  "x \<in> set (findall_from w p t i) \<Longrightarrow>
     \<exists>j e r. i \<le> j \<and> j \<le> length t \<and> ends w p t j = e # r \<and> x = take (e - j) (drop j t)"
proof (induction w p t i rule: findall_from.induct)
  case (1 w p t i)
  show ?case
  proof (cases "length t < i")
    case True
    with "1.prems" show ?thesis by (simp add: findall_from.simps)
  next
    case le: False
    show ?thesis
    proof (cases "ends w p t i")
      case Nil
      with le "1.prems" have "x \<in> set (findall_from w p t (Suc i))"
        by (simp add: findall_from.simps [of w p t i])
      from "1.IH"(1) [OF le Nil this] obtain j e r where
        "Suc i \<le> j" "j \<le> length t" "ends w p t j = e # r" "x = take (e - j) (drop j t)"
        by blast
      moreover then have "i \<le> j" by simp
      ultimately show ?thesis by blast
    next
      case (Cons e r)
      with le "1.prems" have "x = take (e - i) (drop i t) \<or>
          x \<in> set (findall_from w p t (if i < e then e else Suc i))"
        by (simp add: findall_from.simps [of w p t i])
      then show ?thesis
      proof
        assume "x = take (e - i) (drop i t)"
        with le Cons have "i \<le> i \<and> i \<le> length t \<and> ends w p t i = e # r \<and>
            x = take (e - i) (drop i t)" by simp
        then show ?thesis by blast
      next
        assume "x \<in> set (findall_from w p t (if i < e then e else Suc i))"
        from "1.IH"(2) [OF le Cons this] obtain j e' r' where
          "(if i < e then e else Suc i) \<le> j" "j \<le> length t" "ends w p t j = e' # r'"
          "x = take (e' - j) (drop j t)" by blast
        moreover then have "i \<le> j" by (auto split: if_splits)
        ultimately show ?thesis by blast
      qed
    qed
  qed
qed

lemma takeWhile_prefix_all:
  assumes "k \<le> length (takeWhile c xs)"
  shows "length (take k xs) = k \<and> (\<forall>x \<in> set (take k xs). c x)"
proof -
  have "take k xs = take k (takeWhile c xs)"
    using assms by (metis takeWhile_eq_take take_take min.absorb1 length_takeWhile_le le_trans min_def)
  moreover have "\<forall>x \<in> set (take k (takeWhile c xs)). c x"
    by (meson in_set_takeD set_takeWhileD)
  ultimately show ?thesis using assms length_takeWhile_le [of c xs] by simp
qed

lemma ends_skill_pattern:
  "e \<in> set (ends w skill_pattern t i) \<Longrightarrow>
     \<exists>k. e = i + k \<and> 2 \<le> k \<and> k \<le> 15 \<and> k \<le> length (takeWhile skill_char (drop i t)) \<and>
         at_boundary w t i \<and> at_boundary w t (i + k)"
  by (auto simp: skill_pattern_def ends_Rep_def Let_def split: if_splits)

lemma skill_match_shape:
  assumes "x \<in> set (findall_from w skill_pattern t i)"
  shows "2 \<le> length x \<and> length x \<le> 15 \<and> (\<forall>c \<in> set x. skill_char c)"
proof -
  from findall_from_elem [OF assms] obtain j e r where
    e: "ends w skill_pattern t j = e # r" and x: "x = take (e - j) (drop j t)" by blast
  from e have "e \<in> set (ends w skill_pattern t j)" by simp
  from ends_skill_pattern [OF this] obtain k where
    k: "e = j + k" "2 \<le> k" "k \<le> 15" "k \<le> length (takeWhile skill_char (drop j t))" by blast
  from takeWhile_prefix_all [OF k(4)] k x show ?thesis by simp
qed


lemma dropWhile_none: "(\<forall>c \<in> set xs. \<not> P c) \<Longrightarrow> dropWhile P xs = xs"
  by (cases xs) auto

lemma py_strip_no_space: "(\<forall>c \<in> set s. \<not> py_isspace U c) \<Longrightarrow> py_strip U s = s"
  by (simp add: py_strip_def dropWhile_none)

lemma skill_char_lower:
  "skill_char c \<Longrightarrow> c < 256 \<and> (lower_az (latin1_lower c) \<or> latin1_lower c = 35 \<or> latin1_lower c = 43)"
  by (auto simp: skill_char_def upper_AZ_def lower_az_def latin1_lower_def)

lemma lower_class_no_space:
  "lower_az c \<or> c = 35 \<or> c = 43 \<Longrightarrow> \<not> py_isspace U c \<and> c \<noteq> 47"
  by (auto simp: lower_az_def py_isspace_def latin1_isspace_def)

lemma py_lower_skill_chars:
  assumes "\<forall>c \<in> set s. skill_char c"
  shows "py_lower U s = map latin1_lower s"
proof -
  have "list_all (\<lambda>c. c < 256) s"
    using assms skill_char_lower by (auto simp: list_all_iff)
  then show ?thesis by (simp add: py_lower_def)
qed

lemma jd_token_shape:
  assumes "tok \<in> set (extract_skills_from_jd U t)"
  shows "2 \<le> length tok \<and> length tok \<le> 15 \<and> (\<forall>c \<in> set tok. lower_az c \<or> c = 35 \<or> c = 43)"
proof -
  from assms obtain s where s: "s \<in> set (findall_from (is_word U) skill_pattern t 0)"
    and tok: "tok = py_strip U (py_lower U s)"
    by (auto simp: extract_skills_from_jd_def findall_def)
  from skill_match_shape [OF s] have len: "2 \<le> length s" "length s \<le> 15"
    and cls: "\<forall>c \<in> set s. skill_char c" by simp_all
  have low: "py_lower U s = map latin1_lower s"
    by (rule py_lower_skill_chars [OF cls])
  have shape: "\<forall>c \<in> set (map latin1_lower s). lower_az c \<or> c = 35 \<or> c = 43"
    using cls skill_char_lower by auto
  then have "\<forall>c \<in> set (map latin1_lower s). \<not> py_isspace U c"
    using lower_class_no_space by blast
  then have "py_strip U (map latin1_lower s) = map latin1_lower s"
    by (rule py_strip_no_space)
  with tok low have "tok = map latin1_lower s" by simp
  with len shape show ?thesis by simp
qed

lemmas eval_defs = findall_def findall_from.simps skill_pattern_def str_def
  upper_AZ_def lower_az_def skill_char_def py_isspace_def latin1_isspace_def
  is_word_def py_isalnum_def latin1_isalnum_def at_boundary_def
  py_lower_def latin1_lower_def py_strip_def extract_skills_from_jd_def
  role_description_def ROLE_SKILLS_def ends_Rep tries_Nil tries_Cons


section \<open>Job-description tokens\<close>

text \<open>
  Claim C10. No token returned by extract_skills_from_jd contains whitespace or a slash:
  phrases of several words and slash-joined phrases are split. The Data Scientist
  description gives machine and learning as two tokens, the DevOps Engineer description
  gives ci and cd as two tokens.
\<close>

theorem jd_tokens_single_words:
  "(\<forall>tok \<in> set (extract_skills_from_jd U t). \<forall>c \<in> set tok. \<not> py_isspace U c \<and> c \<noteq> 47) \<and>
   extract_skills_from_jd U (role_description ''Data Scientist'') =
     map str [''python'', ''sql'', ''machine'', ''learning'', ''statistics'', ''pandas'', ''numpy''] \<and>
   extract_skills_from_jd U (role_description ''DevOps Engineer'') =
     map str [''aws'', ''docker'', ''kubernetes'', ''linux'', ''ci'', ''cd'']"
proof -
  have "\<not> py_isspace U c \<and> c \<noteq> 47"
    if "tok \<in> set (extract_skills_from_jd U t)" "c \<in> set tok" for tok c
  proof -
    from that jd_token_shape have "lower_az c \<or> c = 35 \<or> c = 43" by blast
    then show ?thesis by (rule lower_class_no_space)
  qed
  moreover have "extract_skills_from_jd U (role_description ''Data Scientist'') =
     map str [''python'', ''sql'', ''machine'', ''learning'', ''statistics'', ''pandas'', ''numpy'']"
    by (simp add: eval_defs)
  moreover have "extract_skills_from_jd U (role_description ''DevOps Engineer'') =
     map str [''aws'', ''docker'', ''kubernetes'', ''linux'', ''ci'', ''cd'']"
    by (simp add: eval_defs)
  ultimately show ?thesis by blast
qed

theorem jd_tokens_single_words_witness:
  "str ''ci'' \<in> set (extract_skills_from_jd kelvin_ucd (str ''AWS Docker Kubernetes Linux CI/CD'')) \<and>
   \<not> py_isspace kelvin_ucd (of_char CHR ''c'') \<and> of_char CHR ''c'' \<noteq> (47 :: nat) \<and>
   \<not> py_isspace kelvin_ucd (of_char CHR ''i'') \<and> of_char CHR ''i'' \<noteq> (47 :: nat)"
  using jd_tokens_single_words [of kelvin_ucd "str ''AWS Docker Kubernetes Linux CI/CD''"]
  by (simp add: eval_defs)

section \<open>R\'esum\'e skill tokens\<close>

text \<open>
  Claim C2, at the text "c# c++": the trailing \<^verbatim>\<open>\b\<close> of the pattern needs a word
  character on exactly one side, and neither \<open>#\<close> or \<open>+\<close> nor the space or the end of
  the text after it is one. Neither token is extracted; the skill set is empty.
\<close>

theorem csharp_cplusplus_not_extracted:
  "extract_candidate_details U (str ''c# c++'') =
     Inr \<lparr>Name = str ''Unknown'', Email = str ''Not Found'', Phone = str ''Not Found'',
          Skills = {}\<rparr>"
  by (simp add: extract_candidate_details_def eval_defs name_pattern_def email_pattern_def
      phone_pattern_def py_isdecimal_def latin1_isdecimal_def)

section \<open>Field extraction never raises\<close>

lemmas field_defs = extract_candidate_details_def name_pattern_def email_pattern_def
  phone_pattern_def py_isdecimal_def latin1_isdecimal_def subscript0_def

text \<open>
  Claim C6. extract_candidate_details returns a record on every input string, the empty
  string included: the subscript is never applied to an empty list. A field without a
  match is the sentinel: Unknown for the name, Not Found for the e-mail address and for
  the phone number.
\<close>

theorem extract_candidate_details_total:
  "(\<exists>r. extract_candidate_details U t = Inr r \<and>
     (findall U (name_pattern U) t = [] \<longrightarrow> Name r = str ''Unknown'') \<and>
     (findall U (email_pattern U) t = [] \<longrightarrow> Email r = str ''Not Found'') \<and>
     (findall U (phone_pattern U) t = [] \<longrightarrow> Phone r = str ''Not Found'')) \<and>
   extract_candidate_details U [] =
     Inr \<lparr>Name = str ''Unknown'', Email = str ''Not Found'', Phone = str ''Not Found'',
          Skills = {}\<rparr>"
proof -
  have "\<exists>r. extract_candidate_details U t = Inr r \<and>
     (findall U (name_pattern U) t = [] \<longrightarrow> Name r = str ''Unknown'') \<and>
     (findall U (email_pattern U) t = [] \<longrightarrow> Email r = str ''Not Found'') \<and>
     (findall U (phone_pattern U) t = [] \<longrightarrow> Phone r = str ''Not Found'')"
    by (auto simp: extract_candidate_details_def Let_def subscript0_def split: list.splits)
  moreover have "extract_candidate_details U [] =
     Inr \<lparr>Name = str ''Unknown'', Email = str ''Not Found'', Phone = str ''Not Found'',
          Skills = {}\<rparr>"
    by (simp add: field_defs eval_defs)
  ultimately show ?thesis by blast
qed

theorem extract_candidate_details_total_witness:
  "\<exists>r. extract_candidate_details kelvin_ucd (str ''@@ 12 ab. A b'') = Inr r \<and>
     findall kelvin_ucd (name_pattern kelvin_ucd) (str ''@@ 12 ab. A b'') = [] \<and>
     Name r = str ''Unknown'' \<and>
     findall kelvin_ucd (email_pattern kelvin_ucd) (str ''@@ 12 ab. A b'') = [] \<and>
     Email r = str ''Not Found'' \<and>
     findall kelvin_ucd (phone_pattern kelvin_ucd) (str ''@@ 12 ab. A b'') = [] \<and>
     Phone r = str ''Not Found''"
  using extract_candidate_details_total [of kelvin_ucd "str ''@@ 12 ab. A b''"]
  by (simp add: field_defs eval_defs)

section \<open>The name pattern finds the first bigram\<close>

lemma run_bound: "i + run c t i \<le> max i (length t)"
  using length_takeWhile_le [of c "drop i t"] by (simp add: run_def)
























end
